theory Spec2Isabelle
  imports Main "HOL-Library.Word"
begin

section \<open>The IRC protocol engine of irc.c\<close>

text \<open>
  A shallow embedding of \<^verbatim>\<open>src/src/irc.c\<close>. The connection object
  \<^verbatim>\<open>struct irc_type\<close> is a record that every function takes and returns; what a
  function hands to the socket is appended to the field \<open>sent\<close>. A C string is the list
  of its characters before the terminator; a fixed \<^verbatim>\<open>char\<close> array is the list of
  all its bytes, terminator and padding included, so that a read or a write that leaves
  the array is a branch of the model and not a silent success.
\<close>

subsection \<open>Constants of the absent headers\<close>

text \<open>
  \<^verbatim>\<open>irc.h\<close> and the configuration \<^verbatim>\<open>cfg\<close> are not part of the sources at hand.
  The sizes and reply codes they define are parameters of every function below.
\<close>

record params =
  IRCLEN :: nat
  NICKLEN :: nat
  CHANLEN :: nat
  MAXCHANS :: nat
  NICKNAMEINUSE :: int
  ENDOFMOTD :: int
  bot_version :: string

subsection \<open>Outcomes that are not a return\<close>

datatype error =
    AssertFailed        \<comment> \<open>an \<^verbatim>\<open>assert\<close> aborts the process\<close>
  | ReadOutOfBounds     \<comment> \<open>a read past the end of an array or past a terminator\<close>
  | WriteOutOfBounds    \<comment> \<open>a write past the end of an array\<close>
  | NullPointer         \<comment> \<open>a library call on \<^verbatim>\<open>NULL\<close>\<close>
  | IntOverflow         \<comment> \<open>\<^verbatim>\<open>atoi\<close> of a value no \<^verbatim>\<open>int\<close> holds\<close>
  | StrtokResume        \<comment> \<open>\<^verbatim>\<open>strtok(NULL, ...)\<close> on a scan the model does not carry\<close>
  | SendFailed          \<comment> \<open>\<^verbatim>\<open>exit_msg("Failed to send message")\<close>\<close>
  | Blocked             \<comment> \<open>a blocking \<^verbatim>\<open>read\<close> that is never answered\<close>

definition bindE :: "error + 'a \<Rightarrow> ('a \<Rightarrow> error + 'b) \<Rightarrow> error + 'b" where
  "bindE m f = (case m of Inl e \<Rightarrow> Inl e | Inr x \<Rightarrow> f x)"

subsection \<open>C strings and fixed arrays\<close>

abbreviation NUL :: char where
  "NUL \<equiv> CHR 0x00"

definition CRLF :: string where
  "CRLF = [CHR 0x0D, CHR 0x0A]"

text \<open>The characters of the C string that starts at the first element of the list.\<close>

definition c_str :: "char list \<Rightarrow> string" where
  "c_str s = takeWhile (\<lambda>c. c \<noteq> NUL) s"

text \<open>
  Reading an array as a C string (\<^verbatim>\<open>%s\<close>, \<^verbatim>\<open>strlen\<close>): without a terminator
  inside the array the read runs past its end.
\<close>

definition cstr :: "char list \<Rightarrow> error + string" where
  "cstr buf = (if NUL \<in> set buf then Inr (c_str buf) else Inl ReadOutOfBounds)"

text \<open>
  \<^verbatim>\<open>strncpy(dst, src, n)\<close> into an array of exactly \<open>n\<close> bytes: the first \<open>n\<close>
  characters of the source, padded with terminators up to \<open>n\<close>, and no terminator at
  all when the source has \<open>n\<close> characters or more.
\<close>

definition strncpy :: "nat \<Rightarrow> char list \<Rightarrow> char list" where
  "strncpy n src = take n (c_str src @ replicate n NUL)"

text \<open>
  \<^verbatim>\<open>strcat(buf, src)\<close>: the characters of \<open>src\<close> and a terminator are written
  behind the string that \<open>buf\<close> holds, whatever the size of \<open>buf\<close>.
\<close>

definition strcat :: "char list \<Rightarrow> string \<Rightarrow> error + char list" where
  "strcat buf src =
     bindE (cstr buf) (\<lambda>cur.
       let new = cur @ c_str src @ [NUL] in
       if length new \<le> length buf then Inr (new @ drop (length new) buf)
       else Inl WriteOutOfBounds)"

text \<open>
  \<^verbatim>\<open>strcmp(a, buf) == 0\<close> for a C string \<open>a\<close> and an array \<open>buf\<close>: the
  comparison stops at the first difference, and leaves the array only when the array has
  no terminator and agrees with \<open>a\<close> on all its bytes.
\<close>

fun strcmp_eq :: "string \<Rightarrow> char list \<Rightarrow> error + bool" where
  "strcmp_eq a [] = Inl ReadOutOfBounds"
| "strcmp_eq [] (c # cs) = Inr (c = NUL)"
| "strcmp_eq (x # xs) (c # cs) =
     (if x = NUL then Inr (c = NUL)
      else if x = c then strcmp_eq xs cs
      else Inr False)"

text \<open>
  \<^verbatim>\<open>strtok\<close> with the scan made explicit: the token and the rest of the string
  behind the delimiter that ended it, or \<open>None\<close> for \<^verbatim>\<open>NULL\<close> when only delimiters
  are left. With no delimiter at all the token is the whole non-empty rest.
\<close>

definition strtok :: "string \<Rightarrow> string \<Rightarrow> (string \<times> string) option" where
  "strtok delim s =
     (let s1 = dropWhile (\<lambda>c. c \<in> set delim) s in
      if s1 = [] then None
      else Some (takeWhile (\<lambda>c. c \<notin> set delim) s1,
                 drop 1 (dropWhile (\<lambda>c. c \<notin> set delim) s1)))"

subsection \<open>The connection\<close>

record Parsed_data =
  sender :: string
  command :: string
  message :: "string option"
  target :: "string option"

text \<open>
  The fields of \<^verbatim>\<open>struct irc_type\<close> that the functions below touch, and what
  they reach outside it. \<open>nick_password\<close> is \<^verbatim>\<open>cfg.nick_password\<close>. \<open>sock_up\<close>,
  \<open>pipe_up\<close> and \<open>fork_ok\<close> stand for the environment: whether
  \<^verbatim>\<open>sock_write_non_blocking\<close> accepts a message, whether the \<^verbatim>\<open>write\<close> to
  the rendezvous pipe succeeds, and whether \<^verbatim>\<open>fork\<close> succeeds. \<open>sent\<close> lists the
  messages written to the socket, \<open>pipe_written\<close> the values written to the pipe and
  \<open>spawned\<close> the handlers started in a child process, oldest first.
\<close>

record irc_type =
  nick :: "char list"
  channels :: "char list list"
  channels_set :: int
  isConnected :: bool
  nick_password :: string
  sock_up :: bool
  pipe_up :: bool
  fork_ok :: bool
  sent :: "string list"
  pipe_written :: "32 word list"
  spawned :: "(string \<times> Parsed_data) list"

text \<open>
  \<^verbatim>\<open>irc_connect\<close>, reduced to the object it returns when the connection is made:
  the zeroed allocation of \<^verbatim>\<open>CALLOC_W\<close>, in an environment where socket, pipe
  and \<^verbatim>\<open>fork\<close> work. Address, port and the descriptors are not among the fields
  of the model.
\<close>

definition irc_connect :: "params \<Rightarrow> irc_type" where
  "irc_connect L =
     \<lparr>nick = replicate (NICKLEN L) NUL,
      channels = replicate (MAXCHANS L) (replicate (CHANLEN L) NUL),
      channels_set = 0, isConnected = False, nick_password = [], sock_up = True,
      pipe_up = True, fork_ok = True, sent = [], pipe_written = [], spawned = []\<rparr>"

text \<open>\<^verbatim>\<open>server->channels[i]\<close>, read as a C string and written as a whole row.\<close>

definition chan_read :: "irc_type \<Rightarrow> int \<Rightarrow> error + string" where
  "chan_read s i =
     (if 0 \<le> i \<and> nat i < length (channels s) then cstr (channels s ! nat i)
      else Inl ReadOutOfBounds)"

definition chan_row :: "irc_type \<Rightarrow> int \<Rightarrow> error + char list" where
  "chan_row s i =
     (if 0 \<le> i \<and> nat i < length (channels s) then Inr (channels s ! nat i)
      else Inl ReadOutOfBounds)"

definition chan_write :: "irc_type \<Rightarrow> int \<Rightarrow> char list \<Rightarrow> error + irc_type" where
  "chan_write s i row =
     (if 0 \<le> i \<and> nat i < length (channels s)
      then Inr (s\<lparr>channels := (channels s)[nat i := row]\<rparr>)
      else Inl WriteOutOfBounds)"

subsection \<open>Sending\<close>

text \<open>
  \<^verbatim>\<open>_irc_command\<close>. The argument \<open>fmt\<close> is the text that \<^verbatim>\<open>vsnprintf\<close> makes of
  the format and its arguments, \<open>None\<close> for the \<^verbatim>\<open>NULL\<close> format of the wrapper
  macros, which leaves \<^verbatim>\<open>msg\<close> empty (line 14 of the source: the colon is omitted).
  Both buffers cut what does not fit.
\<close>

definition irc_msg :: "params \<Rightarrow> string \<Rightarrow> string \<Rightarrow> string option \<Rightarrow> string" where
  "irc_msg L type tgt fmt =
     (let msg = (case fmt of None \<Rightarrow> [] | Some m \<Rightarrow> take (IRCLEN L - 50 - 1) m) in
      take (IRCLEN L - 1)
        (if msg \<noteq> [] then type @ '' '' @ tgt @ '' :'' @ msg @ CRLF
         else type @ '' '' @ tgt @ CRLF))"

definition irc_command ::
  "params \<Rightarrow> irc_type \<Rightarrow> string \<Rightarrow> string \<Rightarrow> string option \<Rightarrow> error + irc_type" where
  "irc_command L server type tgt fmt =
     (if sock_up server then Inr (server\<lparr>sent := sent server @ [irc_msg L type tgt fmt]\<rparr>)
      else Inl SendFailed)"

definition irc_nick_command :: "params \<Rightarrow> irc_type \<Rightarrow> string \<Rightarrow> error + irc_type" where
  "irc_nick_command L server tgt = irc_command L server ''NICK'' tgt None"

definition irc_channel_command :: "params \<Rightarrow> irc_type \<Rightarrow> string \<Rightarrow> error + irc_type" where
  "irc_channel_command L server tgt = irc_command L server ''JOIN'' tgt None"

definition irc_ping_command :: "params \<Rightarrow> irc_type \<Rightarrow> string \<Rightarrow> error + irc_type" where
  "irc_ping_command L server tgt = irc_command L server ''PONG'' tgt None"

text \<open>
  Modelled from the spec: \<^verbatim>\<open>send_message\<close> is defined in the absent
  \<^verbatim>\<open>irc.h\<close>. The spec has replies go out as PRIVMSG in the framing of
  \<^verbatim>\<open>_irc_command\<close>.
\<close>

definition send_message :: "params \<Rightarrow> irc_type \<Rightarrow> string \<Rightarrow> string \<Rightarrow> error + irc_type" where
  "send_message L server tgt text = irc_command L server ''PRIVMSG'' tgt (Some text)"

text \<open>
  Modelled from the spec: \<^verbatim>\<open>send_notice\<close> is defined in the absent
  \<^verbatim>\<open>irc.h\<close>. The spec has the version request answered via a NOTICE.
\<close>

definition send_notice :: "params \<Rightarrow> irc_type \<Rightarrow> string \<Rightarrow> string \<Rightarrow> error + irc_type" where
  "send_notice L server tgt text = irc_command L server ''NOTICE'' tgt (Some text)"

subsection \<open>Nick and channels\<close>

text \<open>
  \<^verbatim>\<open>set_nick\<close>. The NICK command prints \<^verbatim>\<open>server->nick\<close> with \<^verbatim>\<open>%s\<close>, so it
  reads the array as a C string.
\<close>

definition set_nick :: "params \<Rightarrow> irc_type \<Rightarrow> string option \<Rightarrow> error + irc_type" where
  "set_nick L server nk =
     (case nk of
        None \<Rightarrow> Inl AssertFailed
      | Some n \<Rightarrow>
          (let server1 = server\<lparr>nick := strncpy (NICKLEN L) n\<rparr> in
           bindE (cstr (nick server1)) (\<lambda>cur. irc_nick_command L server1 cur)))"

text \<open>The replay loop of \<^verbatim>\<open>join_channel(server, NULL)\<close>, from index \<open>i\<close> on.\<close>

function join_all :: "params \<Rightarrow> irc_type \<Rightarrow> int \<Rightarrow> error + irc_type \<times> int" where
  "join_all L server i =
     (if i < channels_set server then
        (case chan_read server i of
           Inl e \<Rightarrow> Inl e
         | Inr name \<Rightarrow>
             (case irc_channel_command L server name of
                Inl e \<Rightarrow> Inl e
              | Inr server1 \<Rightarrow> join_all L server1 (i + 1)))
      else Inr (server, i))"
  by pat_completeness auto
termination
  by (relation "measure (\<lambda>(L, server, i). nat (channels_set server - i))")
     (auto simp: irc_channel_command_def irc_command_def split: if_splits)

declare join_all.simps [simp del]

definition join_channel ::
  "params \<Rightarrow> irc_type \<Rightarrow> string option \<Rightarrow> error + irc_type \<times> int" where
  "join_channel L server channel =
     (case channel of
        Some ch \<Rightarrow>
          if \<not> (ch \<noteq> [] \<and> hd ch = CHR ''#'') then Inl AssertFailed
          else if channels_set server = int (MAXCHANS L) then Inr (server, - 1)
          else
            bindE (chan_write server (channels_set server) (strncpy (CHANLEN L) ch))
              (\<lambda>server1.
                let server2 = server1\<lparr>channels_set := channels_set server1 + 1\<rparr> in
                if isConnected server2 then
                  bindE (chan_read server2 (channels_set server2 - 1)) (\<lambda>name.
                  bindE (irc_channel_command L server2 name) (\<lambda>server3.
                  Inr (server3, 1)))
                else Inr (server2, 1))
      | None \<Rightarrow>
          if isConnected server then join_all L server 0 else Inr (server, 0))"

subsection \<open>Numeric replies\<close>

text \<open>
  \<^verbatim>\<open>numeric_reply\<close>. After the \<^verbatim>\<open>strcat\<close>, \<^verbatim>\<open>set_nick\<close> is called on
  \<^verbatim>\<open>server->nick\<close> itself: its \<^verbatim>\<open>strncpy\<close> copies the array onto itself, which
  keeps the string and clears what lies behind it.
\<close>

definition numeric_reply :: "params \<Rightarrow> irc_type \<Rightarrow> int \<Rightarrow> error + irc_type \<times> int" where
  "numeric_reply L server reply =
     (if reply = NICKNAMEINUSE L then
        bindE (strcat (nick server) ''_'') (\<lambda>b.
        let server1 = server\<lparr>nick := b\<rparr> in
        bindE (cstr (nick server1)) (\<lambda>cur.
        bindE (set_nick L server1 (Some cur)) (\<lambda>server2.
        Inr (server2, reply))))
      else if reply = ENDOFMOTD L then
        bindE (join_channel L (server\<lparr>isConnected := True\<rparr>) None) (\<lambda>(server1, n).
        Inr (server1, reply))
      else Inr (server, reply))"

subsection \<open>Helpers of the absent common.h\<close>

text \<open>
  Modelled from the spec: \<^verbatim>\<open>starts_with\<close> is not part of the sources at hand. The
  spec speaks of a line beginning with the given word.
\<close>

definition starts_with :: "string \<Rightarrow> string \<Rightarrow> bool" where
  "starts_with s p \<longleftrightarrow> take (length p) s = p"

text \<open>
  Modelled from the spec: \<^verbatim>\<open>streq\<close> is not part of the sources at hand. The spec
  has the channel entry located by exact name match, which on an array is
  \<open>strcmp_eq\<close>.
\<close>

definition streq :: "string \<Rightarrow> char list \<Rightarrow> error + bool" where
  "streq a buf = strcmp_eq a buf"

text \<open>
  Modelled from the spec: \<^verbatim>\<open>null_terminate\<close> is not part of the sources at hand.
  The spec has the sender truncated at the delimiter; the callers test the result, which
  is taken to tell whether the delimiter was there. \<open>Some\<close> carries the truncated
  string, \<open>None\<close> is the false result and leaves the string alone.
\<close>

definition null_terminate :: "string \<Rightarrow> char \<Rightarrow> string option" where
  "null_terminate buf delim =
     (if delim \<in> set buf then Some (takeWhile (\<lambda>c. c \<noteq> delim) buf) else None)"

subsection \<open>The C library's atoi\<close>

definition isspace :: "char \<Rightarrow> bool" where
  "isspace c \<longleftrightarrow> c \<in> set [CHR '' '', CHR 0x09, CHR 0x0A, CHR 0x0B, CHR 0x0C, CHR 0x0D]"

definition isdigit :: "char \<Rightarrow> bool" where
  "isdigit c \<longleftrightarrow> c \<in> set ''0123456789''"

definition digit_val :: "char \<Rightarrow> int" where
  "digit_val c = int (of_char c) - 48"

fun digits :: "int \<Rightarrow> string \<Rightarrow> int" where
  "digits acc [] = acc"
| "digits acc (c # cs) = (if isdigit c then digits (10 * acc + digit_val c) cs else acc)"

text \<open>
  White space is skipped, one sign is read, and the digits that follow give the value;
  whatever comes behind them is ignored. A value outside the 32-bit \<^verbatim>\<open>int\<close> has no
  defined result.
\<close>

definition atoi :: "string \<Rightarrow> error + int" where
  "atoi s =
     (let s1 = dropWhile isspace s;
          neg = (s1 \<noteq> [] \<and> hd s1 = CHR ''-'');
          s2 = (if s1 \<noteq> [] \<and> (hd s1 = CHR ''-'' \<or> hd s1 = CHR ''+'') then tl s1 else s1);
          v = digits 0 s2;
          r = (if neg then - v else v)
      in if - (2 ^ 31) \<le> r \<and> r < 2 ^ 31 then Inr r else Inl IntOverflow)"

subsection \<open>Handlers\<close>

text \<open>
  The table behind \<^verbatim>\<open>function_lookup\<close> is generated code that is not part of the
  sources at hand: it is a parameter, from command names to handlers.
\<close>

type_synonym handler = "irc_type \<Rightarrow> Parsed_data \<Rightarrow> error + irc_type"

type_synonym registry = "string \<Rightarrow> handler option"

text \<open>
  \<^verbatim>\<open>irc_privmsg\<close>. A bot command runs in a child process on its own copy of the
  connection; the parent only starts it, which \<open>spawned\<close> records together with the
  \<^verbatim>\<open>pdata\<close> the handler receives.
\<close>

definition irc_privmsg :: "registry \<Rightarrow> params \<Rightarrow> irc_type \<Rightarrow> Parsed_data \<Rightarrow> error + irc_type" where
  "irc_privmsg function_lookup L server pdata =
     (case null_terminate (sender pdata) (CHR ''!'') of
        None \<Rightarrow> Inr server
      | Some sndr \<Rightarrow>
     (case message pdata of
        None \<Rightarrow> Inl StrtokResume
      | Some m \<Rightarrow>
     (case strtok '' '' m of
        None \<Rightarrow> Inr server
      | Some (tgt0, r1) \<Rightarrow>
          let tgt = (if CHR ''#'' \<in> set tgt0 then tgt0 else sndr) in
     (case strtok '' '' r1 of
        None \<Rightarrow> Inr server
      | Some (cmd0, r2) \<Rightarrow>
          let cmd = tl cmd0;
              msg = map_option fst (strtok [] r2)
          in
          if cmd \<noteq> [] \<and> hd cmd = CHR ''!'' then
            (let cmd1 = tl cmd in
             case function_lookup cmd1 of
               None \<Rightarrow> Inr server
             | Some h \<Rightarrow>
                 if fork_ok server then
                   Inr (server\<lparr>spawned := spawned server @
                     [(cmd1, \<lparr>sender = sndr, command = cmd1, message = msg,
                              target = Some tgt\<rparr>)]\<rparr>)
                 else Inr server)
          else if cmd \<noteq> [] \<and> hd cmd = CHR 0x01 then
            (if starts_with (tl cmd) ''VERSION'' then
               send_notice L server sndr
                 ([CHR 0x01] @ ''VERSION '' @ bot_version L @ [CHR 0x01])
             else Inr server)
          else Inr server))))"

text \<open>The C library's \<^verbatim>\<open>strstr\<close>: the string from the first occurrence on.\<close>

fun strstr :: "string \<Rightarrow> string \<Rightarrow> string option" where
  "strstr [] needle = (if needle = [] then Some [] else None)"
| "strstr (c # cs) needle =
     (if starts_with (c # cs) needle then Some (c # cs) else strstr cs needle)"

text \<open>
  \<^verbatim>\<open>irc_notice\<close>. The answer of NickServ to an ACC query is decoded with
  \<^verbatim>\<open>atoi\<close> and written to the rendezvous pipe as one value of four bytes;
  \<^verbatim>\<open>test + 4\<close> lies behind the terminator when nothing follows the word. The wiped
  password reads as the empty string.
\<close>

definition irc_notice :: "params \<Rightarrow> irc_type \<Rightarrow> Parsed_data \<Rightarrow> error + irc_type" where
  "irc_notice L server pdata =
     (case null_terminate (sender pdata) (CHR ''!'') of
        None \<Rightarrow> Inr server
      | Some sndr \<Rightarrow>
     (case message pdata of
        None \<Rightarrow> Inl StrtokResume
      | Some m \<Rightarrow>
     (case strtok '' '' m of
        None \<Rightarrow> Inr server
      | Some (tgt, r1) \<Rightarrow>
     (case strtok [] r1 of
        None \<Rightarrow> Inr server
      | Some (msg0, r2) \<Rightarrow>
          let msg = tl msg0 in
          bindE (streq sndr (''NickServ'' @ [NUL])) (\<lambda>eq.
          if \<not> eq then Inr server
          else
            (case strstr msg ''ACC'' of
               Some test \<Rightarrow>
                 if length test < 4 then Inl ReadOutOfBounds
                 else
                   bindE (atoi (drop 4 test)) (\<lambda>auth_level.
                   if pipe_up server then
                     Inr (server\<lparr>pipe_written :=
                            pipe_written server @ [word_of_int auth_level]\<rparr>)
                   else Inr server)
             | None \<Rightarrow>
                 if starts_with msg ''This nickname is registered'' then
                   bindE (send_message L server sndr (''identify '' @ nick_password server))
                     (\<lambda>server1. Inr (server1\<lparr>nick_password := []\<rparr>))
                 else Inr server))))))"

text \<open>The search loop of \<^verbatim>\<open>irc_kick\<close>, from index \<open>i\<close> on.\<close>

function find_chan :: "irc_type \<Rightarrow> string \<Rightarrow> int \<Rightarrow> error + int" where
  "find_chan server tgt i =
     (if i < channels_set server then
        (case chan_row server i of
           Inl e \<Rightarrow> Inl e
         | Inr row \<Rightarrow>
             (case streq tgt row of
                Inl e \<Rightarrow> Inl e
              | Inr eq \<Rightarrow> if eq then Inr i else find_chan server tgt (i + 1)))
      else Inr i)"
  by pat_completeness auto
termination
  by (relation "measure (\<lambda>(server, tgt, i). nat (channels_set server - i))") auto

declare find_chan.simps [simp del]

text \<open>
  \<^verbatim>\<open>irc_kick\<close>. The four seconds of \<^verbatim>\<open>sleep\<close> are not modelled. When the KICK
  names no victim, \<^verbatim>\<open>strtok\<close> yields \<^verbatim>\<open>NULL\<close>, which \<^verbatim>\<open>null_terminate\<close> and
  \<^verbatim>\<open>streq\<close> then read.
\<close>

definition irc_kick :: "params \<Rightarrow> irc_type \<Rightarrow> Parsed_data \<Rightarrow> error + irc_type" where
  "irc_kick L server pdata =
     (case null_terminate (sender pdata) (CHR ''!'') of
        None \<Rightarrow> Inr server
      | Some sndr \<Rightarrow>
     (case message pdata of
        None \<Rightarrow> Inl StrtokResume
      | Some m \<Rightarrow>
     (case strtok '' '' m of
        None \<Rightarrow> Inr server
      | Some (tgt, r1) \<Rightarrow>
     (case strtok '' '' r1 of
        None \<Rightarrow> Inl NullPointer
      | Some (victim, r2) \<Rightarrow>
          bindE (streq victim (nick server)) (\<lambda>eq.
          if eq then
            bindE (find_chan server tgt 0) (\<lambda>i.
            let server1 = server\<lparr>channels_set := channels_set server - 1\<rparr> in
            bindE (chan_row server1 (channels_set server1)) (\<lambda>last_row.
            bindE (chan_write server1 i (strncpy (CHANLEN L) last_row)) (\<lambda>server2.
            bindE (join_channel L server2 (Some tgt)) (\<lambda>(server3, n).
            send_message L server3 tgt (sndr @ '' magkas...'')))))
          else Inr server)))))"

subsection \<open>One received line\<close>

text \<open>
  \<^verbatim>\<open>parse_irc_line\<close> from the point where \<^verbatim>\<open>sock_readline\<close> has delivered a
  complete line, which is the argument \<open>line\<close>. \<^verbatim>\<open>server->line + 5\<close> and
  \<^verbatim>\<open>server->line + 1\<close> lie behind the terminator when the line is shorter.
\<close>

definition parse_irc_line ::
  "registry \<Rightarrow> params \<Rightarrow> irc_type \<Rightarrow> string \<Rightarrow> error + irc_type" where
  "parse_irc_line function_lookup L server line =
     (if starts_with line ''PING'' then
        (if length line < 5 then Inl ReadOutOfBounds
         else irc_ping_command L server (drop 5 line))
      else if line = [] then Inl ReadOutOfBounds
      else
     (case strtok '' '' (drop 1 line) of
        None \<Rightarrow> Inr server
      | Some (sndr, r1) \<Rightarrow>
     (case strtok '' '' r1 of
        None \<Rightarrow> Inr server
      | Some (cmd, r2) \<Rightarrow>
     (case strtok [] r2 of
        None \<Rightarrow> Inr server
      | Some (msg, r3) \<Rightarrow>
          let pdata = \<lparr>sender = sndr, command = cmd, message = Some msg, target = None\<rparr> in
          bindE (atoi cmd) (\<lambda>reply.
          if reply \<noteq> 0 then
            bindE (numeric_reply L server reply) (\<lambda>(server1, r). Inr server1)
          else
            (case function_lookup cmd of
               None \<Rightarrow> Inr server
             | Some h \<Rightarrow> h server pdata))))))"

subsection \<open>The identity query\<close>

text \<open>
  What the blocking \<^verbatim>\<open>read\<close> of four bytes from the rendezvous pipe yields. The
  pipe carries nothing but the 4-byte values that \<^verbatim>\<open>irc_notice\<close> writes with one
  \<^verbatim>\<open>write\<close> each, and a pipe hands such a write over whole: the read returns 4 with
  a value, or it returns without data (end of file, an error), or it never returns.
\<close>

datatype pipe_read = Read4 "32 word" | ReadNothing | ReadBlocks

text \<open>\<^verbatim>\<open>user_is_identified\<close>; closing the pipe leaves no trace in the model.\<close>

definition user_is_identified ::
  "params \<Rightarrow> irc_type \<Rightarrow> pipe_read \<Rightarrow> string \<Rightarrow> error + irc_type \<times> bool" where
  "user_is_identified L server rd nk =
     (let auth_level0 = (0 :: 32 word) in
      bindE (send_message L server ''NickServ'' (''ACC '' @ nk)) (\<lambda>server1.
      case rd of
        ReadBlocks \<Rightarrow> Inl Blocked
      | ReadNothing \<Rightarrow> Inr (server1, auth_level0 = 3)
      | Read4 v \<Rightarrow> Inr (server1, v = 3)))"

subsection \<open>Runs and sample values\<close>

text \<open>Joining the channels of a list one after the other.\<close>

fun join_list :: "params \<Rightarrow> irc_type \<Rightarrow> string list \<Rightarrow> error + irc_type" where
  "join_list L server [] = Inr server"
| "join_list L server (c # cs) =
     bindE (join_channel L server (Some c)) (\<lambda>(server1, r). join_list L server1 cs)"

text \<open>\<open>n\<close> nickname-in-use replies in a row.\<close>

fun collisions :: "params \<Rightarrow> irc_type \<Rightarrow> nat \<Rightarrow> error + irc_type" where
  "collisions L server 0 = Inr server"
| "collisions L server (Suc n) =
     bindE (numeric_reply L server (NICKNAMEINUSE L)) (\<lambda>(server1, r).
       collisions L server1 n)"

text \<open>The operations on the channel set, and a run of them.\<close>

datatype operation =
  Join "string option" | Numeric int | Kick Parsed_data | Nick "string option"

definition apply_op :: "params \<Rightarrow> irc_type \<Rightarrow> operation \<Rightarrow> error + irc_type" where
  "apply_op L server op =
     (case op of
        Join c \<Rightarrow> bindE (join_channel L server c) (\<lambda>(server1, r). Inr server1)
      | Numeric reply \<Rightarrow> bindE (numeric_reply L server reply) (\<lambda>(server1, r). Inr server1)
      | Kick pdata \<Rightarrow> irc_kick L server pdata
      | Nick n \<Rightarrow> set_nick L server n)"

fun run :: "params \<Rightarrow> irc_type \<Rightarrow> operation list \<Rightarrow> error + irc_type" where
  "run L server [] = Inr server"
| "run L server (op # ops) = bindE (apply_op L server op) (\<lambda>server1. run L server1 ops)"

text \<open>The names of the recorded channels, in storage order.\<close>

definition recorded :: "irc_type \<Rightarrow> (error + string) list" where
  "recorded s = map (\<lambda>i. chan_read s (int i)) [0..<nat (channels_set s)]"

text \<open>Sample constants (the reply codes are those of the IRC protocol) and states.\<close>

definition demo_params :: params where
  "demo_params =
     \<lparr>IRCLEN = 512, NICKLEN = 20, CHANLEN = 30, MAXCHANS = 3,
      NICKNAMEINUSE = 433, ENDOFMOTD = 376, bot_version = ''irc-bot''\<rparr>"

definition demo_joined :: irc_type where
  "demo_joined =
     \<lparr>nick = strncpy 20 ''bot'',
      channels = [strncpy 30 ''#a'', strncpy 30 ''#b'', strncpy 30 ''#c''],
      channels_set = 3, isConnected = True, nick_password = [], sock_up = True,
      pipe_up = True, fork_ok = True, sent = [], pipe_written = [], spawned = []\<rparr>"

text \<open>
  The spec's wording for a numeric command: the token parses fully as a positive
  integer, that is, it consists of digits only and its value is not zero.
\<close>

definition fully_positive_integer :: "string \<Rightarrow> bool" where
  "fully_positive_integer s \<longleftrightarrow> s \<noteq> [] \<and> list_all isdigit s \<and> 0 < digits 0 s"

text \<open>
  Sample tables: one whose every handler aborts, so that a run that returns has called
  none of them, one that knows the bot command \<^verbatim>\<open>ping\<close> only, and one with the
  three handlers of \<^verbatim>\<open>irc.c\<close>.
\<close>

definition abort_registry :: registry where
  "abort_registry = (\<lambda>name. Some (\<lambda>s p. Inl AssertFailed))"

definition ping_registry :: registry where
  "ping_registry = (\<lambda>name. if name = ''ping'' then Some (\<lambda>s p. Inr s) else None)"

definition core_registry :: "params \<Rightarrow> registry" where
  "core_registry L =
     (\<lambda>name. if name = ''PRIVMSG'' then Some (irc_privmsg ping_registry L)
             else if name = ''NOTICE'' then Some (irc_notice L)
             else if name = ''KICK'' then Some (irc_kick L)
             else None)"

text \<open>
  A KICK of the nick \<^verbatim>\<open>bot\<close> from \<^verbatim>\<open>#b\<close>, a KICK from a channel that was never
  joined, and a run that fills the channel set and ends with the latter.
\<close>

definition demo_kick :: Parsed_data where
  "demo_kick =
     \<lparr>sender = ''op!~op@example.org'', command = ''KICK'',
      message = Some ''#b bot :bye'', target = None\<rparr>"

definition demo_stray_kick :: Parsed_data where
  "demo_stray_kick =
     \<lparr>sender = ''op!~op@example.org'', command = ''KICK'',
      message = Some ''#zzz bot :bye'', target = None\<rparr>"

definition demo_overrun :: "operation list" where
  "demo_overrun =
     [Nick (Some ''bot''), Join (Some ''#a''), Join (Some ''#b''), Join (Some ''#c''),
      Numeric 376, Kick demo_stray_kick]"

section \<open>Properties\<close>

lemma bindE_Inl [simp]: "bindE (Inl e) f = Inl e"
  by (simp add: bindE_def)

lemma bindE_Inr [simp]: "bindE (Inr x) f = f x"
  by (simp add: bindE_def)

lemma bindE_eq_Inr: "bindE m f = Inr y \<longleftrightarrow> (\<exists>x. m = Inr x \<and> f x = Inr y)"
  by (cases m) auto

lemma bindE_fst: "bindE m (\<lambda>(a, b). Inr a) = map_sum id fst m"
  by (cases m) auto

subsection \<open>Strings and arrays\<close>

lemma c_str_no_NUL: "NUL \<notin> set s \<Longrightarrow> c_str s = s"
  by (induction s) (auto simp: c_str_def)

lemma NUL_notin_c_str: "NUL \<notin> set (c_str s)"
  by (auto simp: c_str_def dest: set_takeWhileD)

lemma c_str_idem: "c_str (c_str s) = c_str s"
  by (simp add: c_str_no_NUL NUL_notin_c_str)

lemma length_strncpy: "length (strncpy n src) = n"
  by (simp add: strncpy_def)

lemma strncpy_short:
  "length (c_str src) < n \<Longrightarrow>
     strncpy n src = c_str src @ replicate (n - length (c_str src)) NUL"
  by (simp add: strncpy_def)

lemma c_str_append_NUL: "NUL \<notin> set a \<Longrightarrow> c_str (a @ NUL # b) = a"
  by (induction a) (auto simp: c_str_def)

lemma cstr_Inr_iff: "cstr buf = Inr name \<longleftrightarrow> NUL \<in> set buf \<and> name = c_str buf"
  by (auto simp: cstr_def)

lemma cstr_length: "cstr buf = Inr name \<Longrightarrow> length name < length buf"
proof -
  assume "cstr buf = Inr name"
  then have n: "NUL \<in> set buf" and e: "name = takeWhile (\<lambda>c. c \<noteq> NUL) buf"
    by (auto simp: cstr_Inr_iff c_str_def)
  have "length (takeWhile (\<lambda>c. c \<noteq> NUL) buf) < length buf"
    using n by (induction buf) auto
  then show ?thesis using e by simp
qed

lemma cstr_strncpy:
  "cstr (strncpy n src) =
     (if length (c_str src) < n then Inr (c_str src) else Inl ReadOutOfBounds)"
proof (cases "length (c_str src) < n")
  case True
  then obtain k where k: "n - length (c_str src) = Suc k"
    by (cases "n - length (c_str src)") auto
  have "strncpy n src = c_str src @ NUL # replicate k NUL"
    using True k by (simp add: strncpy_short)
  then show ?thesis
    using True by (simp add: cstr_def c_str_append_NUL NUL_notin_c_str)
next
  case False
  then have "strncpy n src = take n (c_str src)"
    by (simp add: strncpy_def)
  then have "NUL \<notin> set (strncpy n src)"
    using NUL_notin_c_str [of src] by (auto dest: in_set_takeD)
  then show ?thesis
    using False by (simp add: cstr_def)
qed

lemma strcmp_eq_terminated:
  "NUL \<in> set buf \<Longrightarrow> strcmp_eq a buf = Inr (c_str a = c_str buf)"
  by (induction a buf rule: strcmp_eq.induct) (auto simp: c_str_def)

lemma streq_cstr: "cstr buf = Inr name \<Longrightarrow> streq a buf = Inr (c_str a = name)"
  by (auto simp: streq_def cstr_Inr_iff strcmp_eq_terminated)

lemma strcat_length: "strcat buf src = Inr b \<Longrightarrow> length b = length buf"
  by (auto simp: strcat_def cstr_def Let_def split: if_splits)

lemma strcat_full:
  "cstr buf = Inr cur \<Longrightarrow> length buf < length cur + length (c_str src) + 1 \<Longrightarrow>
     strcat buf src = Inl WriteOutOfBounds"
  by (simp add: strcat_def)

lemma strcat_fits:
  assumes c: "cstr buf = Inr cur"
    and l: "length cur + length (c_str src) + 1 \<le> length buf"
  shows "\<exists>b. strcat buf src = Inr b \<and> cstr b = Inr (cur @ c_str src) \<and>
              length b = length buf"
proof -
  have n: "NUL \<notin> set (cur @ c_str src)"
    using c NUL_notin_c_str by (auto simp: cstr_Inr_iff)
  have "c_str ((cur @ c_str src) @ NUL # drop (Suc (length cur + length (c_str src))) buf)
          = cur @ c_str src"
    using n by (rule c_str_append_NUL)
  then show ?thesis
    using c l by (simp add: strcat_def Let_def cstr_def)
qed

subsection \<open>Sending and the nick\<close>

lemma irc_msg_plain:
  "length type + length tgt + 3 < IRCLEN L \<Longrightarrow>
     irc_msg L type tgt None = type @ '' '' @ tgt @ CRLF"
  by (simp add: irc_msg_def CRLF_def)

lemma irc_command_frame:
  "irc_command L s type tgt fmt = Inr s' \<Longrightarrow>
     s' = s\<lparr>sent := sent s @ [irc_msg L type tgt fmt]\<rparr>"
  by (auto simp: irc_command_def split: if_splits)

lemma numeric_reply_collision:
  assumes c: "cstr (nick s) = Inr cur"
    and l: "length cur + 2 \<le> length (nick s)"
    and n: "length cur + 1 < NICKLEN L"
    and u: "sock_up s"
  shows "numeric_reply L s (NICKNAMEINUSE L) =
           Inr (s\<lparr>nick := strncpy (NICKLEN L) (cur @ ''_''),
                  sent := sent s @ [irc_msg L ''NICK'' (cur @ ''_'') None]\<rparr>,
                NICKNAMEINUSE L)"
proof -
  have nn: "NUL \<notin> set cur"
    using c NUL_notin_c_str by (auto simp: cstr_Inr_iff)
  have cs: "c_str ''_'' = ''_''"
    by (simp add: c_str_def)
  obtain b where b: "strcat (nick s) ''_'' = Inr b" "cstr b = Inr (cur @ ''_'')"
    using strcat_fits [OF c, of "''_''"] l cs by auto
  have cc: "c_str (cur @ ''_'') = cur @ ''_''"
    using nn by (simp add: c_str_no_NUL)
  show ?thesis
    using b cc n u
    by (simp add: numeric_reply_def set_nick_def cstr_strncpy irc_nick_command_def
          irc_command_def)
qed

lemma numeric_reply_overflow:
  assumes c: "cstr (nick s) = Inr cur" and l: "length (nick s) < length cur + 2"
  shows "numeric_reply L s (NICKNAMEINUSE L) = Inl WriteOutOfBounds"
proof -
  have "c_str ''_'' = ''_''"
    by (simp add: c_str_def)
  then have "strcat (nick s) ''_'' = Inl WriteOutOfBounds"
    using strcat_full [OF c, of "''_''"] l by simp
  then show ?thesis
    by (simp add: numeric_reply_def)
qed

lemma atoi_digits:
  assumes "s \<noteq> []" and "list_all isdigit s"
  shows "atoi s = (if digits 0 s < 2 ^ 31 then Inr (digits 0 s) else Inl IntOverflow)"
proof -
  obtain c cs where s: "s = c # cs"
    using assms(1) by (cases s) auto
  have d: "isdigit c"
    using assms(2) s by simp
  then have "\<not> isspace c" and "c \<noteq> CHR ''-''" and "c \<noteq> CHR ''+''"
    by (auto simp: isdigit_def isspace_def)
  moreover have "0 \<le> digits a t" if "0 \<le> a" for a t
    using that by (induction t arbitrary: a) (auto simp: isdigit_def digit_val_def)
  then have "0 \<le> digits 0 s"
    by simp
  ultimately show ?thesis
    using s by (simp add: atoi_def Let_def)
qed

subsection \<open>The recorded channels\<close>

lemma recorded_sent [simp]: "recorded (s\<lparr>sent := x\<rparr>) = recorded s"
  by (simp add: recorded_def chan_read_def)

lemma recorded_isConnected [simp]: "recorded (s\<lparr>isConnected := x\<rparr>) = recorded s"
  by (simp add: recorded_def chan_read_def)

lemma length_recorded: "length (recorded s) = nat (channels_set s)"
  by (simp add: recorded_def)

lemma recorded_nth:
  "0 \<le> i \<Longrightarrow> i < channels_set s \<Longrightarrow> recorded s ! nat i = chan_read s i"
  by (simp add: recorded_def)

lemma recorded_append:
  assumes "0 \<le> channels_set s" and "nat (channels_set s) < length (channels s)"
  shows "recorded (s\<lparr>channels := (channels s)[nat (channels_set s) := row],
                     channels_set := channels_set s + 1\<rparr>) = recorded s @ [cstr row]"
proof -
  have n: "nat (channels_set s + 1) = Suc (nat (channels_set s))"
    using assms(1) by simp
  show ?thesis
    using assms by (simp add: recorded_def chan_read_def n)
qed

lemma join_all_sends:
  assumes "recorded s = map Inr names" and "sock_up s" and "0 \<le> i" and "i \<le> channels_set s"
  shows "join_all L s i =
           Inr (s\<lparr>sent := sent s @ map (\<lambda>c. irc_msg L ''JOIN'' c None) (drop (nat i) names)\<rparr>,
                channels_set s)"
  using assms
proof (induction "nat (channels_set s - i)" arbitrary: s i)
  case 0
  then have e: "i = channels_set s" by simp
  have "length names = nat (channels_set s)"
    using "0.prems"(1) length_recorded [of s] by simp
  then show ?case
    using e by (simp add: join_all.simps)
next
  case (Suc k)
  then have lt: "i < channels_set s" by simp
  have len: "length names = nat (channels_set s)"
    using Suc.prems(1) length_recorded [of s] by simp
  have "recorded s ! nat i = chan_read s i"
    using Suc.prems(3) lt by (rule recorded_nth)
  then have rd: "chan_read s i = Inr (names ! nat i)"
    using Suc.prems(1,3) lt len by simp
  let ?s1 = "s\<lparr>sent := sent s @ [irc_msg L ''JOIN'' (names ! nat i) None]\<rparr>"
  have "join_all L ?s1 (i + 1) =
          Inr (?s1\<lparr>sent := sent ?s1 @
                  map (\<lambda>c. irc_msg L ''JOIN'' c None) (drop (nat (i + 1)) names)\<rparr>,
               channels_set ?s1)"
    using Suc.hyps(2) Suc.prems lt by (intro Suc.hyps(1)) auto
  moreover have "drop (nat i) names = names ! nat i # drop (nat (i + 1)) names"
    using lt len Suc.prems(3) by (simp add: Cons_nth_drop_Suc nat_add_distrib)
  moreover have "join_all L s i = join_all L ?s1 (i + 1)"
    using lt rd Suc.prems(2) join_all.simps [of L s i]
    by (simp add: irc_channel_command_def irc_command_def)
  ultimately show ?case
    by simp
qed

lemma join_channel_queued:
  assumes "0 \<le> channels_set s" and "nat (channels_set s) < length (channels s)"
    and "channels_set s \<noteq> int (MAXCHANS L)" and "\<not> isConnected s"
    and "ch \<noteq> []" and "hd ch = CHR ''#''"
  shows "join_channel L s (Some ch) =
           Inr (s\<lparr>channels := (channels s)[nat (channels_set s) := strncpy (CHANLEN L) ch],
                  channels_set := channels_set s + 1\<rparr>, 1)"
  using assms by (simp add: join_channel_def chan_write_def Let_def)

lemma join_list_queued:
  assumes "length (channels s) = MAXCHANS L" and "0 \<le> channels_set s"
    and "channels_set s + int (length chs) \<le> int (MAXCHANS L)" and "\<not> isConnected s"
    and "list_all (\<lambda>c. c \<noteq> [] \<and> hd c = CHR ''#'' \<and> length (c_str c) < CHANLEN L) chs"
  shows "\<exists>s1. join_list L s chs = Inr s1 \<and> sent s1 = sent s \<and> \<not> isConnected s1 \<and>
              sock_up s1 = sock_up s \<and> channels_set s \<le> channels_set s1 \<and>
              recorded s1 = recorded s @ map (\<lambda>c. Inr (c_str c)) chs"
  using assms
proof (induction chs arbitrary: s)
  case Nil
  then show ?case by simp
next
  case (Cons c cs)
  let ?s1 = "s\<lparr>channels := (channels s)[nat (channels_set s) := strncpy (CHANLEN L) c],
                 channels_set := channels_set s + 1\<rparr>"
  have lt: "nat (channels_set s) < length (channels s)"
    using Cons.prems by simp
  have j: "join_channel L s (Some c) = Inr (?s1, 1)"
    using Cons.prems lt by (intro join_channel_queued) auto
  have r: "recorded ?s1 = recorded s @ [Inr (c_str c)]"
    using Cons.prems lt by (simp add: recorded_append cstr_strncpy)
  have "\<exists>s2. join_list L ?s1 cs = Inr s2 \<and> sent s2 = sent ?s1 \<and> \<not> isConnected s2 \<and>
              sock_up s2 = sock_up ?s1 \<and> channels_set ?s1 \<le> channels_set s2 \<and>
              recorded s2 = recorded ?s1 @ map (\<lambda>c. Inr (c_str c)) cs"
    using Cons.prems by (intro Cons.IH) auto
  then show ?case
    using j r by auto
qed

lemma length_CRLF [simp]: "length CRLF = 2"
  by (simp add: CRLF_def)

lemma chan_read_row:
  "chan_read s i = Inr name \<Longrightarrow>
     chan_row s i = Inr (channels s ! nat i) \<and> cstr (channels s ! nat i) = Inr name \<and>
     0 \<le> i \<and> nat i < length (channels s)"
  by (auto simp: chan_read_def chan_row_def split: if_splits)

lemma find_chan_unrecorded:
  assumes "recorded s = map Inr names" and "c_str tgt \<notin> set names"
    and "0 \<le> i" and "i \<le> channels_set s"
  shows "find_chan s tgt i = Inr (channels_set s)"
  using assms
proof (induction "nat (channels_set s - i)" arbitrary: i)
  case 0
  then have "i = channels_set s" by simp
  then show ?case
    using find_chan.simps [of s tgt i] by simp
next
  case (Suc k)
  then have lt: "i < channels_set s" by simp
  have len: "length names = nat (channels_set s)"
    using Suc.prems(1) length_recorded [of s] by simp
  have "recorded s ! nat i = chan_read s i"
    using Suc.prems(3) lt by (rule recorded_nth)
  then have rd: "chan_read s i = Inr (names ! nat i)"
    using Suc.prems(1,3) lt len by simp
  note row = chan_read_row [OF rd]
  have "names ! nat i \<in> set names"
    using lt len Suc.prems(3) by simp
  then have "c_str tgt \<noteq> names ! nat i"
    using Suc.prems(2) by auto
  then have ne: "streq tgt (channels s ! nat i) = Inr False"
    using streq_cstr [of "channels s ! nat i" "names ! nat i" tgt] row by simp
  have "find_chan s tgt (i + 1) = Inr (channels_set s)"
    using Suc.hyps(2) Suc.prems lt by (intro Suc.hyps(1)) auto
  then show ?case
    using find_chan.simps [of s tgt i] lt row ne by simp
qed

subsection \<open>Sample lines\<close>

text \<open>
  An answer of NickServ puts the access level into the rendezvous pipe as one value.
\<close>

lemma notice_acc_example:
  "parse_irc_line (core_registry demo_params) demo_params demo_joined
       '':NickServ!NickServ@services. NOTICE bot :alice ACC 3'' =
     Inr (demo_joined\<lparr>pipe_written := [3]\<rparr>)"
  by code_simp

text \<open>
  A KICK from a channel that is not recorded, on a full channel set: the search ends
  behind the last entry, and the copy that should remove the entry writes the row after
  the array.
\<close>

lemma kick_unrecorded_full:
  "parse_irc_line (core_registry demo_params) demo_params demo_joined
       '':op!~op@example.org KICK #zzz bot :bye'' = Inl WriteOutOfBounds"
  by code_simp

subsection \<open>The claims\<close>

text \<open>
  C1, as the code has it. The connection is connected and holds \<^verbatim>\<open>#a\<close>,
  \<^verbatim>\<open>#b\<close>, \<^verbatim>\<open>#c\<close>; a KICK of its own nick from \<^verbatim>\<open>#b\<close> arrives. The
  entry is removed by moving the last one into its place, and the rejoin records the
  channel again: the set ends with three entries, \<^verbatim>\<open>#a\<close>, \<^verbatim>\<open>#c\<close>,
  \<^verbatim>\<open>#b\<close>, not two. A JOIN for \<^verbatim>\<open>#b\<close> is sent, then a message to
  \<^verbatim>\<open>#b\<close> that starts with the kicker's nick.
\<close>

theorem kick_rejoin:
  assumes len: "length (channels s) = MAXCHANS L" and mx: "3 \<le> MAXCHANS L"
    and cl: "2 < CHANLEN L"
    and n3: "channels_set s = 3"
    and rec: "recorded s = [Inr ''#a'', Inr ''#b'', Inr ''#c'']"
    and me: "cstr (nick s) = Inr me"
    and snd: "CHR ''!'' \<in> set (sender pdata)"
    and msg: "message pdata = Some m"
    and t1: "strtok '' '' m = Some (''#b'', r1)"
    and t2: "strtok '' '' r1 = Some (me, r2)"
    and con: "isConnected s" and up: "sock_up s"
  shows "\<exists>s'. irc_kick L s pdata = Inr s' \<and> channels_set s' = 3 \<and>
           recorded s' = [Inr ''#a'', Inr ''#c'', Inr ''#b''] \<and>
           sent s' = sent s @
             [irc_msg L ''JOIN'' ''#b'' None,
              irc_msg L ''PRIVMSG'' ''#b''
                (Some (takeWhile (\<lambda>c. c \<noteq> CHR ''!'') (sender pdata) @ '' magkas...''))]"
proof -
  have r0: "chan_read s 0 = Inr ''#a''"
    using recorded_nth [of 0 s] rec n3 by simp
  have r1: "chan_read s 1 = Inr ''#b''"
    using recorded_nth [of 1 s] rec n3 by simp
  have r2: "chan_read s 2 = Inr ''#c''"
    using recorded_nth [of 2 s] rec n3 by (simp add: numeral_2_eq_2)
  note c0 = chan_read_row [OF r0] and c1 = chan_read_row [OF r1] and c2 = chan_read_row [OF r2]
  have cb: "c_str ''#b'' = ''#b''"
    by (simp add: c_str_def)
  have e0: "streq ''#b'' (channels s ! 0) = Inr False"
    using streq_cstr [of "channels s ! 0" "''#a''" "''#b''"] c0 cb by simp
  have e1: "streq ''#b'' (channels s ! 1) = Inr True"
    using streq_cstr [of "channels s ! 1" "''#b''" "''#b''"] c1 cb by simp
  have f1: "find_chan s ''#b'' 1 = Inr 1"
    using find_chan.simps [of s "''#b''" 1] n3 c1 e1 by simp
  have f: "find_chan s ''#b'' 0 = Inr 1"
    using find_chan.simps [of s "''#b''" 0] n3 c0 e0 f1 by simp
  have "NUL \<notin> set me"
    using me NUL_notin_c_str by (auto simp: cstr_Inr_iff)
  then have v: "streq me (nick s) = Inr True"
    using streq_cstr [OF me, of me] by (simp add: c_str_no_NUL)
  let ?row = "strncpy (CHANLEN L) (channels s ! 2)"
  let ?k = "takeWhile (\<lambda>c. c \<noteq> CHR ''!'') (sender pdata)"
  let ?s' = "s\<lparr>channels := (channels s)[1 := ?row, 2 := strncpy (CHANLEN L) ''#b''],
                 channels_set := 3,
                 sent := sent s @ [irc_msg L ''JOIN'' ''#b'' None,
                   irc_msg L ''PRIVMSG'' ''#b'' (Some (?k @ '' magkas...''))]\<rparr>"
  have l3: "2 < length (channels s)" "(2::int) \<noteq> int (MAXCHANS L)"
    using len mx by auto
  have "c_str (channels s ! 2) = ''#c''"
    using c2 by (simp add: cstr_Inr_iff)
  then have cr: "cstr ?row = Inr ''#c''"
    using cl by (simp add: cstr_strncpy)
  have cn: "cstr (strncpy (CHANLEN L) ''#b'') = Inr ''#b''"
    using cl by (simp add: cstr_strncpy cb)
  have k: "irc_kick L s pdata = Inr ?s'"
    using snd msg t1 t2 v f n3 c2 l3 con up cn
    by (simp add: irc_kick_def null_terminate_def chan_row_def chan_write_def
          join_channel_def chan_read_def irc_channel_command_def irc_command_def
          send_message_def Let_def)
  have "recorded ?s' = [Inr ''#a'', Inr ''#c'', Inr ''#b'']"
    using c0 cr cn l3
    by (simp add: recorded_def chan_read_def upt_rec numeral_2_eq_2 numeral_3_eq_3)
  then show ?thesis
    using k by simp
qed

theorem kick_rejoin_witness:
  "length (channels demo_joined) = MAXCHANS demo_params \<and> 3 \<le> MAXCHANS demo_params \<and>
   2 < CHANLEN demo_params \<and> channels_set demo_joined = 3 \<and>
   recorded demo_joined = [Inr ''#a'', Inr ''#b'', Inr ''#c''] \<and>
   cstr (nick demo_joined) = Inr ''bot'' \<and> CHR ''!'' \<in> set (sender demo_kick) \<and>
   message demo_kick = Some ''#b bot :bye'' \<and>
   strtok '' '' ''#b bot :bye'' = Some (''#b'', ''bot :bye'') \<and>
   strtok '' '' ''bot :bye'' = Some (''bot'', '':bye'') \<and>
   isConnected demo_joined \<and> sock_up demo_joined \<and>
   (\<exists>s'. irc_kick demo_params demo_joined demo_kick = Inr s' \<and> channels_set s' = 3 \<and>
      recorded s' = [Inr ''#a'', Inr ''#c'', Inr ''#b''] \<and>
      sent s' = [''JOIN #b'' @ CRLF, ''PRIVMSG #b :op magkas...'' @ CRLF])"
proof -
  have a: "length (channels demo_joined) = MAXCHANS demo_params" "3 \<le> MAXCHANS demo_params"
    "2 < CHANLEN demo_params" "channels_set demo_joined = 3"
    "isConnected demo_joined" "sock_up demo_joined"
    by (simp_all add: demo_joined_def demo_params_def)
  have b: "recorded demo_joined = [Inr ''#a'', Inr ''#b'', Inr ''#c'']"
    by code_simp
  have c: "cstr (nick demo_joined) = Inr ''bot''"
    by code_simp
  have d: "CHR ''!'' \<in> set (sender demo_kick)" "message demo_kick = Some ''#b bot :bye''"
    by (simp_all add: demo_kick_def)
  have e: "strtok '' '' ''#b bot :bye'' = Some (''#b'', ''bot :bye'')"
    "strtok '' '' ''bot :bye'' = Some (''bot'', '':bye'')"
    by (simp_all add: strtok_def)
  have m: "irc_msg demo_params ''JOIN'' ''#b'' None = ''JOIN #b'' @ CRLF"
    "irc_msg demo_params ''PRIVMSG'' ''#b''
       (Some (takeWhile (\<lambda>c. c \<noteq> CHR ''!'') (sender demo_kick) @ '' magkas...'')) =
     ''PRIVMSG #b :op magkas...'' @ CRLF"
    "sent demo_joined = []"
    by (simp_all add: irc_msg_def demo_params_def demo_kick_def demo_joined_def)
  show ?thesis
    using kick_rejoin [OF a(1-4) b c d e a(5,6)] a b c d e m by simp
qed

theorem kick_rejoin_counterexample:
  "map_sum id (\<lambda>s. (channels_set s, recorded s, sent s))
       (parse_irc_line (core_registry demo_params) demo_params demo_joined
          '':op!~op@example.org KICK #b bot :bye'') =
     Inr (3, [Inr ''#a'', Inr ''#c'', Inr ''#b''],
          [''JOIN #b'' @ CRLF, ''PRIVMSG #b :op magkas...'' @ CRLF])"
  by code_simp

text \<open>
  C2. Channels joined while the connection is not connected are recorded and nothing
  is sent. The end-of-MOTD reply then sets the connected flag and sends one JOIN for each
  recorded channel, those recorded before (\<open>names\<close>) and those just joined
  (\<open>chs\<close>), in storage order.
\<close>

theorem deferred_join:
  assumes "NICKNAMEINUSE L \<noteq> ENDOFMOTD L"
    and "length (channels s) = MAXCHANS L" and "0 \<le> channels_set s"
    and "recorded s = map Inr names"
    and "channels_set s + int (length chs) \<le> int (MAXCHANS L)"
    and "\<not> isConnected s" and "sock_up s"
    and "list_all (\<lambda>c. c \<noteq> [] \<and> hd c = CHR ''#'' \<and> length (c_str c) < CHANLEN L) chs"
  shows "\<exists>s1 s2.
           join_list L s chs = Inr s1 \<and> sent s1 = sent s \<and> \<not> isConnected s1 \<and>
           numeric_reply L s1 (ENDOFMOTD L) = Inr (s2, ENDOFMOTD L) \<and> isConnected s2 \<and>
           sent s2 = sent s @ map (\<lambda>c. irc_msg L ''JOIN'' c None) (names @ map c_str chs)"
proof -
  obtain s1 where s1: "join_list L s chs = Inr s1" "sent s1 = sent s" "\<not> isConnected s1"
      "sock_up s1" "channels_set s \<le> channels_set s1"
      "recorded s1 = map Inr (names @ map c_str chs)"
    using join_list_queued [of s L chs] assms by auto
  let ?c = "s1\<lparr>isConnected := True\<rparr>"
  have z: "0 \<le> channels_set s1"
    using s1(5) assms(3) by simp
  have "join_all L ?c 0 =
         Inr (?c\<lparr>sent := sent ?c @
                map (\<lambda>c. irc_msg L ''JOIN'' c None) (drop (nat 0) (names @ map c_str chs))\<rparr>,
              channels_set ?c)"
    using s1 z by (intro join_all_sends) auto
  then have "numeric_reply L s1 (ENDOFMOTD L) =
         Inr (?c\<lparr>sent := sent s @
                map (\<lambda>c. irc_msg L ''JOIN'' c None) (names @ map c_str chs)\<rparr>, ENDOFMOTD L)"
    using assms(1) s1 by (simp add: numeric_reply_def join_channel_def)
  then show ?thesis
    using s1 by auto
qed

theorem deferred_join_witness:
  "NICKNAMEINUSE demo_params \<noteq> ENDOFMOTD demo_params \<and>
   length (channels (irc_connect demo_params)) = MAXCHANS demo_params \<and>
   0 \<le> channels_set (irc_connect demo_params) \<and>
   recorded (irc_connect demo_params) = map Inr [] \<and>
   channels_set (irc_connect demo_params) + int (length [''#a'', ''#b'', ''#c''])
     \<le> int (MAXCHANS demo_params) \<and>
   \<not> isConnected (irc_connect demo_params) \<and> sock_up (irc_connect demo_params) \<and>
   list_all (\<lambda>c. c \<noteq> [] \<and> hd c = CHR ''#'' \<and> length (c_str c) < CHANLEN demo_params)
     [''#a'', ''#b'', ''#c''] \<and>
   (\<exists>s1 s2.
      join_list demo_params (irc_connect demo_params) [''#a'', ''#b'', ''#c''] = Inr s1 \<and>
      sent s1 = [] \<and> \<not> isConnected s1 \<and>
      numeric_reply demo_params s1 376 = Inr (s2, 376) \<and> isConnected s2 \<and>
      sent s2 = [''JOIN #a'' @ CRLF, ''JOIN #b'' @ CRLF, ''JOIN #c'' @ CRLF])"
proof -
  have a: "NICKNAMEINUSE demo_params \<noteq> ENDOFMOTD demo_params"
    "length (channels (irc_connect demo_params)) = MAXCHANS demo_params"
    "0 \<le> channels_set (irc_connect demo_params)"
    "recorded (irc_connect demo_params) = map Inr []"
    "channels_set (irc_connect demo_params) + int (length [''#a'', ''#b'', ''#c''])
       \<le> int (MAXCHANS demo_params)"
    "\<not> isConnected (irc_connect demo_params)" "sock_up (irc_connect demo_params)"
    "list_all (\<lambda>c. c \<noteq> [] \<and> hd c = CHR ''#'' \<and> length (c_str c) < CHANLEN demo_params)
       [''#a'', ''#b'', ''#c'']"
    by (simp_all add: demo_params_def irc_connect_def recorded_def c_str_def)
  have m: "map (\<lambda>c. irc_msg demo_params ''JOIN'' c None) ([] @ map c_str [''#a'', ''#b'', ''#c''])
            = [''JOIN #a'' @ CRLF, ''JOIN #b'' @ CRLF, ''JOIN #c'' @ CRLF]"
    "sent (irc_connect demo_params) = []" "ENDOFMOTD demo_params = 376"
    by (simp_all add: irc_msg_def demo_params_def c_str_def irc_connect_def)
  show ?thesis
    using deferred_join [OF a] a m by simp
qed



text \<open>
  C4. A join request on a full channel set returns \<open>-1\<close>; the connection, its channel
  set and the list of sent messages are what they were.
\<close>

theorem join_channel_full:
  assumes "channels_set server = int (MAXCHANS L)"
    and "ch \<noteq> []" and "hd ch = CHR ''#''"
  shows "join_channel L server (Some ch) = Inr (server, - 1)"
  using assms by (simp add: join_channel_def)

theorem join_channel_full_witness:
  "channels_set demo_joined = int (MAXCHANS demo_params) \<and> ''#d'' \<noteq> [] \<and>
   hd ''#d'' = CHR ''#'' \<and>
   join_channel demo_params demo_joined (Some ''#d'') = Inr (demo_joined, - 1)"
  using join_channel_full [of demo_joined demo_params "''#d''"]
  by (simp add: demo_joined_def demo_params_def)

text \<open>
  C5. With the nick \<^verbatim>\<open>bot\<close>, a nickname-in-use reply sends
  \<^verbatim>\<open>NICK bot_\<close> and a second one sends \<^verbatim>\<open>NICK bot__\<close>.
\<close>

theorem nick_collision:
  assumes "cstr (nick s) = Inr ''bot''" and "length (nick s) = NICKLEN L"
    and "6 \<le> NICKLEN L" and "50 < IRCLEN L" and "sock_up s"
  shows "\<exists>s1 s2.
           numeric_reply L s (NICKNAMEINUSE L) = Inr (s1, NICKNAMEINUSE L) \<and>
           sent s1 = sent s @ [''NICK bot_'' @ CRLF] \<and>
           numeric_reply L s1 (NICKNAMEINUSE L) = Inr (s2, NICKNAMEINUSE L) \<and>
           sent s2 = sent s @ [''NICK bot_'' @ CRLF, ''NICK bot__'' @ CRLF]"
proof -
  let ?s1 = "s\<lparr>nick := strncpy (NICKLEN L) ''bot_'',
                 sent := sent s @ [irc_msg L ''NICK'' ''bot_'' None]\<rparr>"
  let ?s2 = "?s1\<lparr>nick := strncpy (NICKLEN L) ''bot__'',
                 sent := sent ?s1 @ [irc_msg L ''NICK'' ''bot__'' None]\<rparr>"
  have r1: "numeric_reply L s (NICKNAMEINUSE L) = Inr (?s1, NICKNAMEINUSE L)"
    using numeric_reply_collision [of s "''bot''" L] assms by simp
  have c1: "cstr (nick ?s1) = Inr ''bot_''"
    using assms by (simp add: cstr_strncpy c_str_def)
  have r2: "numeric_reply L ?s1 (NICKNAMEINUSE L) = Inr (?s2, NICKNAMEINUSE L)"
    using numeric_reply_collision [OF c1, of L] assms by (simp add: length_strncpy)
  have m1: "irc_msg L ''NICK'' ''bot_'' None = ''NICK bot_'' @ CRLF"
    using assms by (simp add: irc_msg_plain)
  have m2: "irc_msg L ''NICK'' ''bot__'' None = ''NICK bot__'' @ CRLF"
    using assms by (simp add: irc_msg_plain)
  show ?thesis
    using r1 r2 m1 m2 by simp
qed

theorem nick_collision_witness:
  "\<exists>s1 s2.
     numeric_reply demo_params demo_joined 433 = Inr (s1, 433) \<and>
     sent s1 = [''NICK bot_'' @ CRLF] \<and>
     numeric_reply demo_params s1 433 = Inr (s2, 433) \<and>
     sent s2 = [''NICK bot_'' @ CRLF, ''NICK bot__'' @ CRLF]"
  using nick_collision [of demo_joined demo_params]
  by (simp add: demo_joined_def demo_params_def cstr_strncpy c_str_def length_strncpy)

text \<open>
  C6 does not hold of the code. The nick is extended by \<^verbatim>\<open>strcat\<close>, which has
  no bound: from any nick, as many nickname-in-use replies as the nick array has room
  left end in a write past the end of the array.
\<close>

theorem collisions_overflow:
  assumes "cstr (nick s) = Inr cur" and "length (nick s) = NICKLEN L" and "sock_up s"
  shows "collisions L s (NICKLEN L - length cur) = Inl WriteOutOfBounds"
  using assms
proof (induction "NICKLEN L - length cur - 1" arbitrary: s cur)
  case 0
  have lt: "length cur < NICKLEN L"
    using cstr_length [OF "0.prems"(1)] "0.prems"(2) by simp
  with 0 have e: "NICKLEN L - length cur = Suc 0"
    by simp
  have "numeric_reply L s (NICKNAMEINUSE L) = Inl WriteOutOfBounds"
    using numeric_reply_overflow [OF "0.prems"(1), of L] "0.prems"(2) lt 0 by simp
  then show ?case
    by (simp add: e)
next
  case (Suc k)
  let ?s1 = "s\<lparr>nick := strncpy (NICKLEN L) (cur @ ''_''),
                 sent := sent s @ [irc_msg L ''NICK'' (cur @ ''_'') None]\<rparr>"
  have nn: "NUL \<notin> set cur"
    using Suc.prems(1) NUL_notin_c_str by (auto simp: cstr_Inr_iff)
  have l: "length cur + 1 < NICKLEN L"
    using Suc.hyps(2) by simp
  have r: "numeric_reply L s (NICKNAMEINUSE L) = Inr (?s1, NICKNAMEINUSE L)"
    using numeric_reply_collision [OF Suc.prems(1), of L] l Suc.prems by simp
  have c1: "cstr (nick ?s1) = Inr (cur @ ''_'')"
    using l nn by (simp add: cstr_strncpy c_str_no_NUL)
  have k: "k = NICKLEN L - length (cur @ ''_'') - 1"
    using Suc.hyps(2) by simp
  have "collisions L ?s1 (NICKLEN L - length (cur @ ''_'')) = Inl WriteOutOfBounds"
    using Suc.hyps(1) [OF k c1] Suc.prems by (simp add: length_strncpy)
  moreover have "NICKLEN L - length cur = Suc (NICKLEN L - length (cur @ ''_''))"
    using l by simp
  ultimately show ?case
    using r by simp
qed

theorem collisions_overflow_witness:
  "cstr (nick demo_joined) = Inr ''bot'' \<and> length (nick demo_joined) = NICKLEN demo_params \<and>
   sock_up demo_joined \<and> collisions demo_params demo_joined 17 = Inl WriteOutOfBounds"
  using collisions_overflow [of demo_joined "''bot''" demo_params]
  by (simp add: demo_joined_def demo_params_def cstr_strncpy c_str_def length_strncpy)

text \<open>
  C7, as the code has it. The second token of a line that is not a PING goes to
  \<^verbatim>\<open>numeric_reply\<close> exactly when \<^verbatim>\<open>atoi\<close> makes a number other than zero
  of it, and is looked up in the table otherwise. Every token that parses fully as a
  positive integer is of the first kind, but so is a token with text behind the digits.
\<close>

theorem numeric_routing:
  assumes "\<not> starts_with line ''PING''" and "line \<noteq> []"
    and "strtok '' '' (drop 1 line) = Some (sndr, r1)"
    and "strtok '' '' r1 = Some (cmd, r2)"
    and "strtok [] r2 = Some (msg, r3)"
    and "atoi cmd = Inr reply"
  shows "parse_irc_line function_lookup L s line =
           (if reply \<noteq> 0 then map_sum id fst (numeric_reply L s reply)
            else case function_lookup cmd of
                   None \<Rightarrow> Inr s
                 | Some h \<Rightarrow> h s \<lparr>sender = sndr, command = cmd, message = Some msg,
                                  target = None\<rparr>) \<and>
         (fully_positive_integer cmd \<longrightarrow> reply \<noteq> 0)"
proof -
  have "reply \<noteq> 0" if "fully_positive_integer cmd"
    using that assms(6) atoi_digits [of cmd]
    by (auto simp: fully_positive_integer_def split: if_splits)
  then show ?thesis
    using assms by (simp add: parse_irc_line_def bindE_fst)
qed

theorem numeric_routing_witness:
  "\<not> starts_with '':irc.example.net 433 * bot :Nickname is already in use.'' ''PING'' \<and>
   strtok '' '' ''irc.example.net 433 * bot :Nickname is already in use.'' =
     Some (''irc.example.net'', ''433 * bot :Nickname is already in use.'') \<and>
   strtok '' '' ''433 * bot :Nickname is already in use.'' =
     Some (''433'', ''* bot :Nickname is already in use.'') \<and>
   strtok [] ''* bot :Nickname is already in use.'' =
     Some (''* bot :Nickname is already in use.'', []) \<and>
   atoi ''433'' = Inr 433 \<and> fully_positive_integer ''433'' \<and>
   parse_irc_line abort_registry demo_params demo_joined
       '':irc.example.net 433 * bot :Nickname is already in use.'' =
     map_sum id fst (numeric_reply demo_params demo_joined 433)"
proof -
  have a: "\<not> starts_with '':irc.example.net 433 * bot :Nickname is already in use.'' ''PING''"
    "'':irc.example.net 433 * bot :Nickname is already in use.'' \<noteq> []"
    "strtok '' '' (drop 1 '':irc.example.net 433 * bot :Nickname is already in use.'') =
       Some (''irc.example.net'', ''433 * bot :Nickname is already in use.'')"
    "strtok '' '' ''433 * bot :Nickname is already in use.'' =
       Some (''433'', ''* bot :Nickname is already in use.'')"
    "strtok [] ''* bot :Nickname is already in use.'' =
       Some (''* bot :Nickname is already in use.'', [])"
    "atoi ''433'' = Inr 433"
    by (simp_all add: starts_with_def strtok_def atoi_def isspace_def isdigit_def digit_val_def)
  have f: "fully_positive_integer ''433''"
    by (simp add: fully_positive_integer_def isdigit_def digit_val_def)
  show ?thesis
    using numeric_routing [OF a, of abort_registry demo_params demo_joined] a f by simp
qed

theorem numeric_routing_counterexample:
  "\<not> fully_positive_integer ''433abc'' \<and>
   parse_irc_line abort_registry demo_params demo_joined
       '':irc.example.net 433abc * bot :Nickname is already in use.'' =
     Inr (demo_joined\<lparr>nick := strncpy 20 ''bot_'', sent := [''NICK bot_'' @ CRLF]\<rparr>)"
  by code_simp

text \<open>
  C8. A PRIVMSG that launches a bot command hands the handler the sender cut at the
  first \<^verbatim>\<open>!\<close> and, as reply target, the first payload token when it contains a
  \<^verbatim>\<open>#\<close> and the cut sender otherwise.
\<close>

theorem privmsg_reply_target:
  assumes "CHR ''!'' \<in> set (sender pdata)"
    and "message pdata = Some m"
    and "strtok '' '' m = Some (tgt0, r1)"
    and "strtok '' '' r1 = Some (c # CHR ''!'' # name, r2)"
    and "function_lookup name = Some h"
    and "fork_ok s"
  shows "irc_privmsg function_lookup L s pdata =
           Inr (s\<lparr>spawned := spawned s @
             [(name,
               \<lparr>sender = takeWhile (\<lambda>c. c \<noteq> CHR ''!'') (sender pdata),
                command = name,
                message = map_option fst (strtok [] r2),
                target = Some (if CHR ''#'' \<in> set tgt0 then tgt0
                               else takeWhile (\<lambda>c. c \<noteq> CHR ''!'') (sender pdata))\<rparr>)]\<rparr>)"
  using assms by (simp add: irc_privmsg_def null_terminate_def)

theorem privmsg_reply_target_witness:
  "CHR ''!'' \<in> set ''alice!~al@example.org'' \<and>
   strtok '' '' ''bot :!ping 8.8.8.8'' = Some (''bot'', '':!ping 8.8.8.8'') \<and>
   strtok '' '' '':!ping 8.8.8.8'' = Some (CHR '':'' # CHR ''!'' # ''ping'', ''8.8.8.8'') \<and>
   ping_registry ''ping'' = Some (\<lambda>s p. Inr s) \<and> fork_ok demo_joined \<and>
   irc_privmsg ping_registry demo_params demo_joined
       \<lparr>sender = ''alice!~al@example.org'', command = ''PRIVMSG'',
        message = Some ''bot :!ping 8.8.8.8'', target = None\<rparr> =
     Inr (demo_joined\<lparr>spawned :=
       [(''ping'', \<lparr>sender = ''alice'', command = ''ping'', message = Some ''8.8.8.8'',
                    target = Some ''alice''\<rparr>)]\<rparr>) \<and>
   parse_irc_line (core_registry demo_params) demo_params demo_joined
       '':alice!~al@example.org PRIVMSG bot :!ping 8.8.8.8'' =
     Inr (demo_joined\<lparr>spawned :=
       [(''ping'', \<lparr>sender = ''alice'', command = ''ping'', message = Some ''8.8.8.8'',
                    target = Some ''alice''\<rparr>)]\<rparr>)"
proof -
  have l: "parse_irc_line (core_registry demo_params) demo_params demo_joined
       '':alice!~al@example.org PRIVMSG bot :!ping 8.8.8.8'' =
     Inr (demo_joined\<lparr>spawned :=
       [(''ping'', \<lparr>sender = ''alice'', command = ''ping'', message = Some ''8.8.8.8'',
                    target = Some ''alice''\<rparr>)]\<rparr>)"
    by code_simp
  show ?thesis
    using privmsg_reply_target [of "\<lparr>sender = ''alice!~al@example.org'', command = ''PRIVMSG'',
        message = Some ''bot :!ping 8.8.8.8'', target = None\<rparr>" "''bot :!ping 8.8.8.8''"
        "''bot''" "'':!ping 8.8.8.8''" "CHR '':''" "''ping''" "''8.8.8.8''" ping_registry
        "\<lambda>s p. Inr s" demo_joined demo_params] l
    by (simp add: strtok_def ping_registry_def demo_joined_def)
qed

text \<open>
  C9 does not hold of the code. The search loop of \<^verbatim>\<open>irc_kick\<close> has no test for a
  channel that is not recorded: it ends behind the last entry. On a full channel set the
  copy that should remove the entry then writes the row \<^verbatim>\<open>channels[MAXCHANS]\<close>, which
  is past the array; in the struct the next field is \<^verbatim>\<open>channels_set\<close>, so the count
  of recorded channels is what the copy overwrites. The run does not reach a state with
  at most \<^verbatim>\<open>MAXCHANS\<close> channels.
\<close>

theorem kick_unrecorded_overrun:
  assumes full: "channels_set s = int (MAXCHANS L)"
    and len: "length (channels s) = MAXCHANS L" and pos: "0 < MAXCHANS L"
    and rec: "recorded s = map Inr names"
    and new: "c_str tgt \<notin> set names"
    and me: "cstr (nick s) = Inr me"
    and snd: "CHR ''!'' \<in> set (sender pdata)"
    and msg: "message pdata = Some m"
    and t1: "strtok '' '' m = Some (tgt, r1)"
    and t2: "strtok '' '' r1 = Some (me, r2)"
  shows "irc_kick L s pdata = Inl WriteOutOfBounds"
proof -
  have f: "find_chan s tgt 0 = Inr (int (MAXCHANS L))"
    using find_chan_unrecorded [OF rec new, of 0] full by simp
  have "NUL \<notin> set me"
    using me NUL_notin_c_str by (auto simp: cstr_Inr_iff)
  then have v: "streq me (nick s) = Inr True"
    using streq_cstr [OF me, of me] by (simp add: c_str_no_NUL)
  have n: "nat (int (MAXCHANS L) - 1) < MAXCHANS L" "1 \<le> int (MAXCHANS L)"
    using pos by auto
  show ?thesis
    using snd msg t1 t2 v f full len n
    by (simp add: irc_kick_def null_terminate_def chan_row_def chan_write_def Let_def)
qed

theorem kick_unrecorded_overrun_witness:
  "channels_set demo_joined = int (MAXCHANS demo_params) \<and>
   length (channels demo_joined) = MAXCHANS demo_params \<and> 0 < MAXCHANS demo_params \<and>
   recorded demo_joined = map Inr [''#a'', ''#b'', ''#c''] \<and>
   c_str ''#zzz'' \<notin> set [''#a'', ''#b'', ''#c''] \<and>
   cstr (nick demo_joined) = Inr ''bot'' \<and> CHR ''!'' \<in> set (sender demo_stray_kick) \<and>
   message demo_stray_kick = Some ''#zzz bot :bye'' \<and>
   strtok '' '' ''#zzz bot :bye'' = Some (''#zzz'', ''bot :bye'') \<and>
   strtok '' '' ''bot :bye'' = Some (''bot'', '':bye'') \<and>
   irc_kick demo_params demo_joined demo_stray_kick = Inl WriteOutOfBounds \<and>
   run demo_params (irc_connect demo_params) demo_overrun = Inl WriteOutOfBounds"
proof -
  have a: "channels_set demo_joined = int (MAXCHANS demo_params)"
    "length (channels demo_joined) = MAXCHANS demo_params" "0 < MAXCHANS demo_params"
    by (simp_all add: demo_joined_def demo_params_def)
  have b: "recorded demo_joined = map Inr [''#a'', ''#b'', ''#c'']"
    by code_simp
  have c: "c_str ''#zzz'' \<notin> set [''#a'', ''#b'', ''#c'']"
    by (simp add: c_str_def)
  have d: "cstr (nick demo_joined) = Inr ''bot''"
    by code_simp
  have e: "CHR ''!'' \<in> set (sender demo_stray_kick)"
    "message demo_stray_kick = Some ''#zzz bot :bye''"
    by (simp_all add: demo_stray_kick_def)
  have t: "strtok '' '' ''#zzz bot :bye'' = Some (''#zzz'', ''bot :bye'')"
    "strtok '' '' ''bot :bye'' = Some (''bot'', '':bye'')"
    by (simp_all add: strtok_def)
  have r: "run demo_params (irc_connect demo_params) demo_overrun = Inl WriteOutOfBounds"
    by code_simp
  show ?thesis
    using kick_unrecorded_overrun [OF a b c d e t] a b c d e t r by simp
qed

text \<open>
  C10. When the read on the rendezvous pipe returns, \<^verbatim>\<open>user_is_identified\<close>
  returns true exactly when the read delivered four bytes and their value is 3; when it
  delivered none the result is false.
\<close>

theorem user_is_identified_result:
  assumes "sock_up s" and "rd \<noteq> ReadBlocks"
  shows "user_is_identified L s rd nk =
           Inr (s\<lparr>sent := sent s @ [irc_msg L ''PRIVMSG'' ''NickServ'' (Some (''ACC '' @ nk))]\<rparr>,
                rd = Read4 3)"
  using assms
  by (cases rd) (simp_all add: user_is_identified_def send_message_def irc_command_def)

theorem user_is_identified_result_witness:
  "sock_up demo_joined \<and> Read4 3 \<noteq> ReadBlocks \<and> Read4 4 \<noteq> ReadBlocks \<and>
   ReadNothing \<noteq> ReadBlocks \<and>
   map_sum id snd (user_is_identified demo_params demo_joined (Read4 3) ''alice'') = Inr True \<and>
   map_sum id snd (user_is_identified demo_params demo_joined (Read4 4) ''alice'') = Inr False \<and>
   map_sum id snd (user_is_identified demo_params demo_joined ReadNothing ''alice'') = Inr False"
  using user_is_identified_result [of demo_joined "Read4 3" demo_params "''alice''"]
    user_is_identified_result [of demo_joined "Read4 4" demo_params "''alice''"]
    user_is_identified_result [of demo_joined ReadNothing demo_params "''alice''"]
  by (simp add: demo_joined_def)

end
